theory Spec2Isabelle
  imports Complex_Main "HOL-Library.AList"
begin

section \<open>JSON values and browser storage\<close>

text \<open>
  The program keeps its state in React component state and in the browser's
  \<^verbatim>\<open>localStorage\<close>, as JSON text. A JSON value is modelled as a datatype. Numbers are
  exact rationals (every numeral of a JSON text is one); an object is the list of its
  properties, whose keys are distinct, and the order of the properties is not modelled.
\<close>

datatype json =
    JNull
  | JBool bool
  | JNum rat
  | JStr string
  | JArr "json list"
  | JObj "(string \<times> json) list"

text \<open>
  A text handed to \<^verbatim>\<open>JSON.parse\<close> is seen through what the parser makes of it:
  \<open>Raw s\<close> is a text that is not valid JSON (the parser throws \<^verbatim>\<open>SyntaxError\<close>), the
  empty text \<open>Raw []\<close> among them; \<open>Json v\<close> is a text that the parser reads as \<open>v\<close>,
  which is what \<^verbatim>\<open>JSON.stringify\<close> writes for \<open>v\<close>, with or without indentation.
\<close>

datatype content = Raw string | Json json

definition JSON_parse :: "content \<Rightarrow> json option" where
  "JSON_parse c = (case c of Raw s \<Rightarrow> None | Json v \<Rightarrow> Some v)"

definition JSON_stringify :: "json \<Rightarrow> content" where
  "JSON_stringify v = Json v"

definition truthy :: "content \<Rightarrow> bool" where
  \<comment> \<open>\<^verbatim>\<open>if (text)\<close>: only the empty text is falsy\<close>
  "truthy c = (c \<noteq> Raw [])"

text \<open>
  \<^verbatim>\<open>localStorage\<close>: the stored items, and whether the browser lets the page use the
  storage at all (it throws on every access when storage is disabled).
\<close>

record localStorage =
  items :: "string \<rightharpoonup> content"
  available :: bool

definition getItem :: "localStorage \<Rightarrow> string \<Rightarrow> content option" where
  \<comment> \<open>\<^verbatim>\<open>try { return localStorage.getItem(key) } catch { return null }\<close>\<close>
  "getItem ls key = (if available ls then items ls key else None)"

definition setItem :: "localStorage \<Rightarrow> string \<Rightarrow> content \<Rightarrow> bool \<times> localStorage" where
  \<comment> \<open>\<^verbatim>\<open>try { localStorage.setItem(key, value); return true } catch { return false }\<close>\<close>
  "setItem ls key v =
     (if available ls then (True, ls\<lparr>items := (items ls)(key \<mapsto> v)\<rparr>) else (False, ls))"

definition removeItem :: "localStorage \<Rightarrow> string \<Rightarrow> bool \<times> localStorage" where
  "removeItem ls key =
     (if available ls then (True, ls\<lparr>items := (items ls)(key := None)\<rparr>) else (False, ls))"

definition STORAGE_KEY :: string where "STORAGE_KEY = ''redeemedCoupons''"
definition FIRST_VISIT_KEY :: string where "FIRST_VISIT_KEY = ''firstVisit''"
definition REDEEMED_DATES_KEY :: string where "REDEEMED_DATES_KEY = ''redeemedDates''"
definition AUTH_KEY :: string where "AUTH_KEY = ''advent-auth''"
definition BACKUP_VERSION :: string where "BACKUP_VERSION = ''1.0.0''"

section \<open>The coupon catalog (coupons.ts)\<close>

datatype CouponCategory = ROMANTIC | RELAXATION | ADVENTURE | HOME | CREATIVE | SURPRISE

datatype difficulty = Easy | Medium | Special

text \<open>
  The fields \<^verbatim>\<open>color\<close>, \<^verbatim>\<open>tags\<close> and \<^verbatim>\<open>redeemInstructions\<close> are styling and free text that
  no function below reads. The field \<^verbatim>\<open>id\<close> is \<open>coupon_id\<close> here. Polish letters of the
  titles and descriptions are written without their diacritics and every other
  non-ASCII character by its code point.
\<close>

record coupon =
  coupon_id :: int
  day :: int
  title :: string
  description :: string
  validUntil :: string
  emoji :: string
  category :: CouponCategory
  difficulty :: difficulty

definition coupons :: "coupon list" where
  \<open>coupons = [
    \<lparr>coupon_id = 1, day = 1, title = ''Profesjonalny Masaz'',
      description = ''Pelny masaz ciala (oczywiscie wykonany przezemnie) (15 min)'',
      validUntil = ''31.01.2026'', emoji = ''U+1F486 U+200D U+2640 U+FE0F'', category = RELAXATION, difficulty = Easy\<rparr>,
    \<lparr>coupon_id = 2, day = 2, title = ''Kolacja przy Swiecach'',
      description = ''Romantyczna kolacja oczywiscie w domu'',
      validUntil = ''14.02.2026'', emoji = ''U+1F56F U+FE0F'', category = ROMANTIC, difficulty = Medium\<rparr>,
    \<lparr>coupon_id = 3, day = 3, title = ''Kino Domowe Premium'',
      description = ''Film do wyboru + popcorn, nachos i Twoje ulubione slodycze'',
      validUntil = ''31.01.2026'', emoji = ''U+1F3AC'', category = HOME, difficulty = Easy\<rparr>,
    \<lparr>coupon_id = 4, day = 4, title = ''Sniadanie Marzen'',
      description = ''Sniadanie do lozka z wszystkim czego zapragniesz'',
      validUntil = ''15.02.2026'', emoji = ''U+1F950'', category = ROMANTIC, difficulty = Easy\<rparr>,
    \<lparr>coupon_id = 5, day = 5, title = ''Nocny Spacer pod Gwiazdami'',
      description = ''Romantyczny spacer'',
      validUntil = ''28.02.2026'', emoji = ''U+2728'', category = ROMANTIC, difficulty = Easy\<rparr>,
    \<lparr>coupon_id = 6, day = 6, title = ''Shopping Spree'',
      description = ''Wspolne zakupy + bon prezentowy 200 zl'',
      validUntil = ''31.03.2026'', emoji = ''U+1F6CD U+FE0F'', category = SURPRISE, difficulty = Special\<rparr>,
    \<lparr>coupon_id = 7, day = 7, title = ''Dzien Krolowej'',
      description = ''Robie WSZYSTKIE rzeczy co tylko mi powiesz i sobie zazyczysz'',
      validUntil = ''31.01.2026'', emoji = ''U+1F451'', category = HOME, difficulty = Easy\<rparr>,
    \<lparr>coupon_id = 8, day = 8, title = ''Czas dla Siebie'',
      description = ''4 godziny tylko dla Ciebie - zero pytan, zero przeszkadzania'',
      validUntil = ''28.02.2026'', emoji = ''U+1F3A8'', category = RELAXATION, difficulty = Easy\<rparr>,
    \<lparr>coupon_id = 9, day = 9, title = ''Wieczor Gier'',
      description = ''Planszowki, gry karciane lub gry video - Ty wybierasz!'',
      validUntil = ''31.01.2026'', emoji = ''U+1F3AE'', category = HOME, difficulty = Easy\<rparr>,
    \<lparr>coupon_id = 10, day = 10, title = ''Domowe SPA Day'',
      description = ''Kapiel z bombami, maseczki, paznokcie, relaks total oczywiscie do zrealizowania gdy bedziemy razem mieszkac'',
      validUntil = ''31.01.2030'', emoji = ''U+1F6C1'', category = RELAXATION, difficulty = Medium\<rparr>,
    \<lparr>coupon_id = 11, day = 11, title = ''Wycieczka Niespodzianka'',
      description = ''Jednodniowa wycieczka w tajemnicze miejsce (tylko dla Ciebie!)'',
      validUntil = ''30.04.2026'', emoji = ''U+1F697'', category = ADVENTURE, difficulty = Special\<rparr>,
    \<lparr>coupon_id = 12, day = 12, title = ''Twoja Osobista Playlista'',
      description = ''Stworzona specjalnie dla Ciebie playlista z 50 utworami'',
      validUntil = ''31.12.2026'', emoji = ''U+1F3B5'', category = CREATIVE, difficulty = Easy\<rparr>,
    \<lparr>coupon_id = 13, day = 13, title = ''Masaz Stop'',
      description = ''Relaksujacy masaz stop'',
      validUntil = ''28.02.2026'', emoji = ''U+1F463'', category = RELAXATION, difficulty = Easy\<rparr>,
    \<lparr>coupon_id = 14, day = 14, title = ''Sesja Zdjeciowa'',
      description = ''Profesjonalna sesja zdjeciowa w miejscu do wyboru + obrobka'',
      validUntil = ''31.05.2026'', emoji = ''U+1F4F8'', category = CREATIVE, difficulty = Special\<rparr>,
    \<lparr>coupon_id = 15, day = 15, title = ''Maraton Serialowy'',
      description = ''Caly dzien ogladania Twojego ulubionego serialu + pizza'',
      validUntil = ''31.01.2026'', emoji = ''U+1F37F'', category = HOME, difficulty = Easy\<rparr>,
    \<lparr>coupon_id = 16, day = 16, title = ''Ciasto od Podstaw'',
      description = ''Upieke Twoje ulubione ciasto wedlug Twojej ulubionej receptury (JAK SIE NAUCZE PIEC)'',
      validUntil = ''31.01.2028'', emoji = ''U+1F382'', category = HOME, difficulty = Medium\<rparr>,
    \<lparr>coupon_id = 17, day = 17, title = ''Nieograniczony Poranek'',
      description = ''Spij ile chcesz - zero budzenia, zero obowiazkow'',
      validUntil = ''28.02.2026'', emoji = ''U+1F634'', category = RELAXATION, difficulty = Easy\<rparr>,
    \<lparr>coupon_id = 18, day = 18, title = ''Piknik Romantyczny'',
      description = ''Piknik w parku z koszem pelnym przysmakow (gdy bedzie cieplej)'',
      validUntil = ''30.07.2026'', emoji = ''U+1F9FA'', category = ROMANTIC, difficulty = Medium\<rparr>,
    \<lparr>coupon_id = 19, day = 19, title = ''Kupon na "nieograniczone przytulanie"'',
      description = ''Caly wieczor poswiecony tylko na przytulanie - bez limitu czasu, bez przerwy na telefon czy obowiazki. Koc, poduszki, ciepla herbata i my dwoje wtuleni w siebie. Idealny na zimny wieczor, kiedy chcesz czuc bliskosc i bezpieczenstwo w moich ramionach. Trzymam Cie tak dlugo, jak zechcesz... U+267EU+FE0FU+2764U+FE0F'',
      validUntil = ''28.02.2026'', emoji = ''U+1F495'', category = CREATIVE, difficulty = Medium\<rparr>,
    \<lparr>coupon_id = 20, day = 20, title = ''List Milosny'',
      description = ''Odrecznie napisany list opisujacy dlaczego Cie kocham'',
      validUntil = ''14.02.2026'', emoji = ''U+1F48C'', category = ROMANTIC, difficulty = Easy\<rparr>,
    \<lparr>coupon_id = 21, day = 21, title = ''Nagrane voice message playlist'',
      description = ''10 krotkich nagran z komplementami (do sluchania kiedy chce).'',
      validUntil = ''28.02.2026'', emoji = ''U+1F50A'', category = ROMANTIC, difficulty = Medium\<rparr>,
    \<lparr>coupon_id = 22, day = 22, title = ''Kolacja w Restauracji'',
      description = ''Romantyczna kolacja w restauracji'',
      validUntil = ''31.03.2026'', emoji = ''U+1F37D U+FE0F'', category = SURPRISE, difficulty = Special\<rparr>,
    \<lparr>coupon_id = 23, day = 23, title = ''Dzien Tylko dla Ciebie'',
      description = ''Caly dzien poswiecony Tobie - robimy to co Ty chcesz'',
      validUntil = ''28.02.2026'', emoji = ''U+1F49D'', category = ROMANTIC, difficulty = Special\<rparr>,
    \<lparr>coupon_id = 24, day = 24, title = ''U+1F381 NIESPODZIANKA FINALOWA U+1F381'',
      description = ''Specjalny prezent ktory zmieni wszystko... Szczegoly 24 grudnia!'',
      validUntil = ''31.12.2026'', emoji = ''U+1F381'', category = SURPRISE, difficulty = Special\<rparr>]\<close>


definition includes_id :: "json list \<Rightarrow> int \<Rightarrow> bool" where
  \<comment> \<open>\<^verbatim>\<open>redeemedIds.includes(coupon.id)\<close>: some element is the number \<open>i\<close>\<close>
  "includes_id redeemedIds i = (JNum (of_int i) \<in> set redeemedIds)"

definition getRedeemedCoupons :: "json list \<Rightarrow> coupon list" where
  "getRedeemedCoupons redeemedIds = filter (\<lambda>c. includes_id redeemedIds (coupon_id c)) coupons"

definition countByCategory :: "coupon list \<Rightarrow> (CouponCategory \<rightharpoonup> int)" where
  \<comment> \<open>\<^verbatim>\<open>reduce((acc, c) => { acc[c.category] = (acc[c.category] || 0) + 1; return acc }, {})\<close>\<close>
  "countByCategory cs =
     fold (\<lambda>c acc. acc(category c \<mapsto> (case acc (category c) of None \<Rightarrow> 0 | Some n \<Rightarrow> n) + 1))
       cs Map.empty"

definition Math_round :: "rat \<Rightarrow> int" where
  \<comment> \<open>the nearest integer, a half rounded up\<close>
  "Math_round x = \<lfloor>x + 1 / 2\<rfloor>"

text \<open>
  \<open>percentage\<close> is \<open>None\<close> when JavaScript's result is not a finite number (\<^verbatim>\<open>NaN\<close> or an
  infinity, from a division by zero). The quotient is taken over the rationals. With the
  24 coupons of the catalog the binary floating point of JavaScript rounds to the same
  percentage for every array length: the quotient is a multiple of 1/8, hence exact,
  wherever the percentage lies on a half, and at least 1/6 away from a half elsewhere.
\<close>

record stats =
  total :: int
  redeemed :: int
  remaining :: int
  percentage :: "int option"
  categoryCounts :: "CouponCategory \<rightharpoonup> int"
  redeemedByCategory :: "CouponCategory \<rightharpoonup> int"

definition getCouponStats :: "json list \<Rightarrow> stats" where
  "getCouponStats redeemedIds =
     (let total = int (length coupons);
          redeemed = int (length redeemedIds);
          remaining = total - redeemed
      in \<lparr>total = total, redeemed = redeemed, remaining = remaining,
          percentage =
            (if total = 0 then None
             else Some (Math_round ((of_int redeemed / of_int total) * 100))),
          categoryCounts = countByCategory coupons,
          redeemedByCategory = countByCategory (getRedeemedCoupons redeemedIds)\<rparr>)"

section \<open>The page: redemption state and its handlers (Home component)\<close>

text \<open>
  A JavaScript \<^verbatim>\<open>Set\<close> is the list of its elements in insertion order. Membership is
  \<^verbatim>\<open>SameValueZero\<close>: primitive values are compared by value; an array or an object is
  the same as no value met elsewhere, since each one parsed or built is a fresh reference.
\<close>

definition sameValueZero :: "json \<Rightarrow> json \<Rightarrow> bool" where
  "sameValueZero a b = (case a of JArr _ \<Rightarrow> False | JObj _ \<Rightarrow> False | _ \<Rightarrow> a = b)"

definition Set_has :: "json list \<Rightarrow> json \<Rightarrow> bool" where
  "Set_has s x = (\<exists>y \<in> set s. sameValueZero y x)"

definition Set_add :: "json list \<Rightarrow> json \<Rightarrow> json list" where
  "Set_add s x = (if Set_has s x then s else s @ [x])"

definition Set_of :: "json list \<Rightarrow> json list" where
  \<comment> \<open>\<^verbatim>\<open>new Set(array)\<close>\<close>
  "Set_of xs = fold (\<lambda>x s. Set_add s x) xs []"

text \<open>
  \<^verbatim>\<open>String(n)\<close> for an integer \<open>n\<close>, the key under which \<^verbatim>\<open>{ [n]: v }\<close> stores \<open>v\<close>:
  the decimal numeral.
\<close>

function string_of_nat :: "nat \<Rightarrow> string" where
  "string_of_nat n =
     (if n < 10 then [''0123456789'' ! n]
      else string_of_nat (n div 10) @ [''0123456789'' ! (n mod 10)])"
  by pat_completeness auto
termination
  by (relation "measure (\<lambda>n. n)") auto

declare string_of_nat.simps [simp del]

definition string_of_int :: "int \<Rightarrow> string" where
  "string_of_int i = (if i < 0 then CHR ''-'' # string_of_nat (nat (- i)) else string_of_nat (nat i))"

fun spread :: "json \<Rightarrow> (string \<times> json) list" where
  \<comment> \<open>the own enumerable properties that \<^verbatim>\<open>{ ...v }\<close> copies\<close>
  "spread (JObj kvs) = kvs"
| "spread (JArr xs) = zip (map string_of_nat [0..<length xs]) xs"
| "spread (JStr s) = zip (map string_of_nat [0..<length s]) (map (\<lambda>c. JStr [c]) s)"
| "spread _ = []"

text \<open>
  The state of the page: the fields of \<^verbatim>\<open>PageState\<close> and the component's other state
  variables that the handlers below use. \<open>redeemedDates\<close> holds whatever value was
  parsed from the storage, so it is a JSON value.
\<close>

record home =
  selectedCoupon :: "int option"
  redeemedCoupons :: "json list"
  showProfile :: bool
  showInstallPrompt :: bool
  redeemedDates :: json
  isAuthenticated :: bool
  showAuthModal :: bool

definition initial_home :: home where
  \<comment> \<open>the \<^verbatim>\<open>useState\<close> initial values, at every load of the page\<close>
  "initial_home = \<lparr>selectedCoupon = None, redeemedCoupons = [], showProfile = False,
     showInstallPrompt = False, redeemedDates = JObj [], isAuthenticated = False,
     showAuthModal = False\<rparr>"

text \<open>The clock: \<^verbatim>\<open>getDate()\<close>, \<^verbatim>\<open>getMonth()\<close> (0 is January) and \<^verbatim>\<open>toISOString()\<close> of \<^verbatim>\<open>new Date()\<close>.\<close>

record clock =
  getDate :: int
  getMonth :: int
  toISOString :: string

definition isUnlocked :: "clock \<Rightarrow> int \<Rightarrow> bool" where
  "isUnlocked today d = (getMonth today = 11 \<and> getDate today \<ge> d)"

definition isRedeemed :: "home \<Rightarrow> int \<Rightarrow> bool" where
  "isRedeemed h couponId = Set_has (redeemedCoupons h) (JNum (of_int couponId))"

definition redeemedAt :: "home \<Rightarrow> int \<Rightarrow> json option" where
  \<comment> \<open>\<^verbatim>\<open>redeemedDates[couponId]\<close>, \<open>None\<close> for \<^verbatim>\<open>undefined\<close>\<close>
  "redeemedAt h couponId = map_of (spread (redeemedDates h)) (string_of_int couponId)"

definition saveRedeemedDate :: "clock \<Rightarrow> int \<Rightarrow> home \<times> localStorage \<Rightarrow> home \<times> localStorage" where
  "saveRedeemedDate now couponId w =
     (case w of (h, ls) \<Rightarrow>
        let newDates = JObj (AList.update (string_of_int couponId) (JStr (toISOString now))
                               (spread (redeemedDates h)))
        in (h\<lparr>redeemedDates := newDates\<rparr>,
            snd (setItem ls REDEEMED_DATES_KEY (JSON_stringify newDates))))"

definition handleRedeem :: "clock \<Rightarrow> int \<Rightarrow> home \<times> localStorage \<Rightarrow> home \<times> localStorage" where
  \<comment> \<open>the toasts and the announcement that follow change neither the state nor the storage\<close>
  "handleRedeem now couponId w =
     (case w of (prev, ls) \<Rightarrow>
        let newRedeemed = Set_add (redeemedCoupons prev) (JNum (of_int couponId));
            ls' = snd (setItem ls STORAGE_KEY (JSON_stringify (JArr newRedeemed)))
        in saveRedeemedDate now couponId (prev\<lparr>redeemedCoupons := newRedeemed\<rparr>, ls'))"

definition handleAuthenticate :: "bool \<Rightarrow> home \<times> localStorage \<Rightarrow> home \<times> localStorage" where
  "handleAuthenticate success w =
     (case w of (h, ls) \<Rightarrow>
        if success
        then (h\<lparr>isAuthenticated := True, showAuthModal := False\<rparr>,
              snd (setItem ls AUTH_KEY (Json (JBool True))))
        else (h, ls))"

text \<open>
  \<open>initializeData\<close>, the effect that loads the stored state. One \<^verbatim>\<open>try\<close> block holds the
  three steps, so a \<^verbatim>\<open>JSON.parse\<close> that throws ends the block with what was set before it;
  the \<^verbatim>\<open>catch\<close> shows a toast.
\<close>

definition load_redeemed :: "localStorage \<Rightarrow> home \<Rightarrow> home option" where
  \<comment> \<open>\<open>None\<close>: \<^verbatim>\<open>JSON.parse\<close> threw\<close>
  "load_redeemed ls h =
     (case getItem ls STORAGE_KEY of
        None \<Rightarrow> Some h
      | Some saved \<Rightarrow>
          if truthy saved then
            (case JSON_parse saved of
               None \<Rightarrow> None
             | Some parsedData \<Rightarrow>
                 (case parsedData of
                    JArr xs \<Rightarrow> Some (h\<lparr>redeemedCoupons := Set_of xs\<rparr>)
                  | _ \<Rightarrow> Some h))
          else Some h)"

definition load_dates :: "localStorage \<Rightarrow> home \<Rightarrow> home option" where
  "load_dates ls h =
     (case getItem ls REDEEMED_DATES_KEY of
        None \<Rightarrow> Some h
      | Some savedDates \<Rightarrow>
          if truthy savedDates then
            (case JSON_parse savedDates of
               None \<Rightarrow> None
             | Some parsedDates \<Rightarrow> Some (h\<lparr>redeemedDates := parsedDates\<rparr>))
          else Some h)"

definition mark_first_visit :: "clock \<Rightarrow> string \<Rightarrow> localStorage \<Rightarrow> localStorage" where
  "mark_first_visit now herName ls =
     (let isFirstVisit = (case getItem ls FIRST_VISIT_KEY of None \<Rightarrow> True | Some v \<Rightarrow> \<not> truthy v) in
      if isFirstVisit \<and> herName \<noteq> [] then snd (setItem ls FIRST_VISIT_KEY (Raw (toISOString now)))
      else ls)"

definition initializeData :: "clock \<Rightarrow> string \<Rightarrow> home \<times> localStorage \<Rightarrow> home \<times> localStorage" where
  "initializeData now herName w =
     (case w of (h, ls) \<Rightarrow>
        (case load_redeemed ls h of
           None \<Rightarrow> (h, ls)
         | Some h1 \<Rightarrow>
             (case load_dates ls h1 of
                None \<Rightarrow> (h1, ls)
              | Some h2 \<Rightarrow> (h2, mark_first_visit now herName ls))))"

definition authCheck :: "home \<times> localStorage \<Rightarrow> home \<times> localStorage" where
  "authCheck w =
     (case w of (h, ls) \<Rightarrow>
        if getItem ls AUTH_KEY = Some (Json (JBool True))
        then (h\<lparr>isAuthenticated := True\<rparr>, ls)
        else (h\<lparr>showAuthModal := True\<rparr>, ls))"

definition reload :: "clock \<Rightarrow> string \<Rightarrow> localStorage \<Rightarrow> home \<times> localStorage" where
  \<comment> \<open>\<^verbatim>\<open>window.location.reload()\<close>: the component state starts afresh and the effects run\<close>
  "reload now herName ls = initializeData now herName (authCheck (initial_home, ls))"

section \<open>Export, import and reset (DataManager component)\<close>

definition falsy :: "json \<Rightarrow> bool" where
  "falsy v = (v = JNull \<or> v = JBool False \<or> v = JNum 0 \<or> v = JStr [])"

definition typeof :: "json option \<Rightarrow> string" where
  \<comment> \<open>\<open>None\<close> is \<^verbatim>\<open>undefined\<close>\<close>
  "typeof v = (case v of
       None \<Rightarrow> ''undefined''
     | Some (JBool _) \<Rightarrow> ''boolean''
     | Some (JNum _) \<Rightarrow> ''number''
     | Some (JStr _) \<Rightarrow> ''string''
     | Some _ \<Rightarrow> ''object'')"

definition get_prop :: "json \<Rightarrow> string \<Rightarrow> json option" where
  \<comment> \<open>\<^verbatim>\<open>data.name\<close> for the names read below, which only an object can have\<close>
  "get_prop data name = (case data of JObj kvs \<Rightarrow> map_of kvs name | _ \<Rightarrow> None)"

definition validateBackupData :: "json \<Rightarrow> bool" where
  "validateBackupData data =
     (if falsy data \<or> typeof (Some data) \<noteq> ''object'' then False
      else (case get_prop data ''redeemedCoupons'' of
          Some (JArr ids) \<Rightarrow>
            (if \<not> list_all (\<lambda>i. typeof (Some i) = ''number'') ids then False
             else if typeof (get_prop data ''exportDate'') \<noteq> ''string'' then False
             else True)
        | _ \<Rightarrow> False))"

record download =
  fileName :: string
  dataStr :: content

datatype export_error = Export_unavailable | No_data | Export_failed

definition exportData :: "clock \<Rightarrow> localStorage \<Rightarrow> export_error + download" where
  "exportData now ls =
     (if \<not> available ls then Inl Export_unavailable
      else (case getItem ls STORAGE_KEY of
          None \<Rightarrow> Inl No_data
        | Some data \<Rightarrow>
            (if \<not> truthy data then Inl No_data
             else (case JSON_parse data of
                None \<Rightarrow> Inl Export_failed
              | Some parsedData \<Rightarrow>
                  Inr \<lparr>fileName = ''advent-calendar-backup-''
                                   @ takeWhile (\<lambda>c. c \<noteq> CHR ''T'') (toISOString now) @ ''.json'',
                       dataStr = JSON_stringify (JObj [(''redeemedCoupons'', parsedData),
                                    (''exportDate'', JStr (toISOString now)),
                                    (''version'', JStr BACKUP_VERSION)])\<rparr>))))"

text \<open>
  The file chosen for an import: its name, its size in bytes and its text, \<open>None\<close> when
  the \<^verbatim>\<open>FileReader\<close> fails.
\<close>

record upload =
  file_name :: string
  file_size :: nat
  file_text :: "content option"

definition endsWith :: "string \<Rightarrow> string \<Rightarrow> bool" where
  "endsWith s suf = (length suf \<le> length s \<and> drop (length s - length suf) s = suf)"

datatype import_result =
    Import_unavailable
  | No_file
  | Wrong_extension
  | Too_large
  | Read_error
  | Empty_file
  | Syntax_error
  | Invalid_format
  | Write_failed
  | Imported bool

text \<open>
  \<open>Imported warn\<close>: the data were stored, with the version warning shown when \<open>warn\<close>.
  Every other result shows an error (or nothing) and stores nothing.
\<close>

definition onload :: "content \<Rightarrow> localStorage \<Rightarrow> import_result \<times> localStorage" where
  "onload content ls =
     (if \<not> truthy content then (Empty_file, ls)
      else (case JSON_parse content of
          None \<Rightarrow> (Syntax_error, ls)
        | Some data \<Rightarrow>
            (if \<not> validateBackupData data then (Invalid_format, ls)
             else
              (let warn = (get_prop data ''version'' \<noteq> Some (JStr BACKUP_VERSION));
                   written = (case get_prop data ''redeemedCoupons'' of
                                Some v \<Rightarrow> JSON_stringify v
                              | None \<Rightarrow> Raw ''undefined'');
                   (success, ls') = setItem ls STORAGE_KEY written
               in if success then (Imported warn, ls') else (Write_failed, ls')))))"

definition handleFileSelect :: "upload option \<Rightarrow> localStorage \<Rightarrow> import_result \<times> localStorage" where
  "handleFileSelect f ls =
     (case f of
        None \<Rightarrow> (No_file, ls)
      | Some upl \<Rightarrow>
          (if \<not> endsWith (file_name upl) ''.json'' then (Wrong_extension, ls)
           else if file_size upl > 1024 * 1024 then (Too_large, ls)
           else (case file_text upl of
              None \<Rightarrow> (Read_error, ls)
            | Some content \<Rightarrow> onload content ls)))"

definition importData :: "upload option \<Rightarrow> localStorage \<Rightarrow> import_result \<times> localStorage" where
  \<comment> \<open>the menu entry opens the file dialog only when the storage is available\<close>
  "importData f ls = (if \<not> available ls then (Import_unavailable, ls) else handleFileSelect f ls)"

definition resetData :: "bool \<Rightarrow> localStorage \<Rightarrow> bool \<times> localStorage" where
  \<comment> \<open>\<open>confirmed\<close>: the user answers the confirmation toast with yes; the result tells
      whether the page reloads\<close>
  "resetData confirmed ls =
     (if \<not> available ls then (False, ls)
      else if confirmed then removeItem ls STORAGE_KEY
      else (False, ls))"

section \<open>The door (Door component)\<close>

text \<open>
  The status text of a door is one of three: \<^verbatim>\<open>Odblokuje sie ${coupon.day} grudnia\<close>
  (it unlocks on that day of December), \<^verbatim>\<open>Odebrane\<close> (redeemed) and
  \<^verbatim>\<open>Kliknij aby otworzyc\<close> (click to open).
\<close>

datatype status = Locked int | Redeemed | Unlocked

definition statusText :: "coupon \<Rightarrow> bool \<Rightarrow> bool \<Rightarrow> status" where
  "statusText c is_unlocked is_redeemed =
     (if \<not> is_unlocked then Locked (day c)
      else if is_redeemed then Redeemed
      else Unlocked)"

text \<open>
  What the door renders, as far as it depends on the props \<^verbatim>\<open>isUnlocked\<close> and
  \<^verbatim>\<open>isRedeemed\<close> (\<open>is_unlocked\<close> and \<open>is_redeemed\<close> below).
\<close>

record door =
  ariaStatus :: status
  redeemedBadge :: bool
  redeemedOverlay :: bool
  lockOverlay :: bool
  ariaDisabled :: bool
  tabIndex :: int

definition Door :: "coupon \<Rightarrow> bool \<Rightarrow> bool \<Rightarrow> door" where
  "Door c is_unlocked is_redeemed =
     \<lparr>ariaStatus = statusText c is_unlocked is_redeemed,
      redeemedBadge = is_redeemed,
      redeemedOverlay = is_redeemed,
      lockOverlay = (\<not> is_unlocked),
      ariaDisabled = (\<not> is_unlocked),
      tabIndex = (if is_unlocked then 0 else - 1)\<rparr>"

definition render_door :: "clock \<Rightarrow> home \<Rightarrow> coupon \<Rightarrow> door" where
  \<comment> \<open>\<^verbatim>\<open><Door coupon={coupon} isUnlocked={isUnlocked(coupon.day)} isRedeemed={isRedeemed(coupon.id)} />\<close>\<close>
  "render_door today h c = Door c (isUnlocked today (day c)) (isRedeemed h (coupon_id c))"

section \<open>The session gate (AuthModal component)\<close>

definition isWhiteSpace :: "char \<Rightarrow> bool" where
  \<comment> \<open>the white space and line terminators that \<^verbatim>\<open>trim\<close> strips, among the code units below 256\<close>
  "isWhiteSpace c = (of_char c \<in> {9, 10, 11, 12, 13, 32, 160 :: nat})"

definition trim :: "string \<Rightarrow> string" where
  "trim s = rev (dropWhile isWhiteSpace (rev (dropWhile isWhiteSpace s)))"

definition padStart :: "nat \<Rightarrow> string \<Rightarrow> string \<Rightarrow> string" where
  \<comment> \<open>\<^verbatim>\<open>s.padStart(n, pad)\<close>\<close>
  "padStart n pad s =
     (if n \<le> length s \<or> pad = [] then s
      else take (n - length s) (concat (replicate (n - length s) pad)) @ s)"

datatype submit_result = Fill_all_values | Authenticate_true | Try_again

definition handleSubmit :: "string \<Rightarrow> string \<Rightarrow> string \<Rightarrow> submit_result" where
  \<comment> \<open>\<open>Authenticate_true\<close>: \<^verbatim>\<open>onAuthenticate(true)\<close> is called; the other two only set the error text\<close>
  "handleSubmit day_in month_in year_in =
     (let d = padStart 2 ''0'' (trim day_in);
          m = padStart 2 ''0'' (trim month_in);
          y = padStart 2 ''23'' (trim year_in)
      in if d = [] \<or> m = [] \<or> y = [] then Fill_all_values
         else if d = ''03'' \<and> m = ''02'' \<and> y = ''23'' then Authenticate_true
         else Try_again)"

definition authenticate ::
  "string \<Rightarrow> string \<Rightarrow> string \<Rightarrow> home \<times> localStorage \<Rightarrow> bool \<times> home \<times> localStorage" where
  \<comment> \<open>the modal's submit with the page's \<open>handleAuthenticate\<close> as \<^verbatim>\<open>onAuthenticate\<close>\<close>
  "authenticate day_in month_in year_in w =
     (case handleSubmit day_in month_in year_in of
        Authenticate_true \<Rightarrow> (True, handleAuthenticate True w)
      | _ \<Rightarrow> (False, w))"

section \<open>The scannable code's payload (CouponModal, QrCoupon and Profile components)\<close>








text \<open>How the page feeds the two components it renders from its state.\<close>

definition selectedCouponData :: "home \<Rightarrow> coupon option" where
  \<comment> \<open>\<^verbatim>\<open>state.selectedCoupon ? coupons.find(c => c.id === state.selectedCoupon) : null\<close>\<close>
  "selectedCouponData h =
     (case selectedCoupon h of
        None \<Rightarrow> None
      | Some i \<Rightarrow> if i = 0 then None else find (\<lambda>c. coupon_id c = i) coupons)"




text \<open>
  The modal's redeem button, in both variants of the modal. The modal renders nothing
  without a coupon, and the button only while the coupon is not redeemed
  (\<^verbatim>\<open>{!isRedeemed ? <button onClick={handleRedeem}> ... }\<close>); the page gives it
  \<^verbatim>\<open>isRedeemed={state.selectedCoupon ? isRedeemed(state.selectedCoupon) : false}\<close> and
  \<^verbatim>\<open>onRedeem={() => state.selectedCoupon && handleRedeem(state.selectedCoupon)}\<close>.
\<close>

definition onRedeem :: "clock \<Rightarrow> home \<times> localStorage \<Rightarrow> home \<times> localStorage" where
  "onRedeem now w =
     (case selectedCoupon (fst w) of
        None \<Rightarrow> w
      | Some i \<Rightarrow> if i = 0 then w else handleRedeem now i w)"

definition modal_isRedeemed :: "home \<Rightarrow> bool" where
  "modal_isRedeemed h =
     (case selectedCoupon h of
        None \<Rightarrow> False
      | Some i \<Rightarrow> if i = 0 then False else isRedeemed h i)"

definition redeem_button :: "clock \<Rightarrow> home \<times> localStorage \<Rightarrow> home \<times> localStorage" where
  \<comment> \<open>a click on the button where it is rendered; where it is not, nothing happens\<close>
  "redeem_button now w =
     (case selectedCouponData (fst w) of
        None \<Rightarrow> w
      | Some c \<Rightarrow> if modal_isRedeemed (fst w) then w else onRedeem now w)"

section \<open>Notions of the specification\<close>

text \<open>
  The specification speaks of the ledger: the redeemed set, the map \<open>redeemedAt\<close> and
  the invariant that ties them. These are its notions over the state of the page.
\<close>

definition stored_array :: "content option \<Rightarrow> json list option" where
  \<comment> \<open>the elements of a stored text that is a JSON array\<close>
  "stored_array c = (case c of Some (Json (JArr xs)) \<Rightarrow> Some xs | _ \<Rightarrow> None)"

definition key_of :: "json \<Rightarrow> string option" where
  \<comment> \<open>the key of \<open>redeemedDates\<close> that belongs to an element of the redeemed set, an integer\<close>
  "key_of v = (case v of
       JNum q \<Rightarrow> if q = of_int \<lfloor>q\<rfloor> then Some (string_of_int \<lfloor>q\<rfloor>) else None
     | _ \<Rightarrow> None)"

definition ledger_inv :: "home \<Rightarrow> bool" where
  \<comment> \<open>every key of \<open>redeemedDates\<close> is the key of an element of the redeemed set\<close>
  "ledger_inv h =
     (\<forall>k \<in> set (map fst (spread (redeemedDates h))).
        \<exists>x \<in> set (redeemedCoupons h). key_of x = Some k)"

definition is_number :: "json \<Rightarrow> bool" where
  "is_number v = (case v of JNum _ \<Rightarrow> True | _ \<Rightarrow> False)"

definition backup_shape :: "json \<Rightarrow> bool" where
  \<comment> \<open>an object whose \<^verbatim>\<open>redeemedCoupons\<close> is an array of numbers and whose \<^verbatim>\<open>exportDate\<close> is a string\<close>
  "backup_shape data =
     (case data of
        JObj kvs \<Rightarrow>
          (case map_of kvs ''redeemedCoupons'' of
             Some (JArr ids) \<Rightarrow>
               list_all is_number ids
               \<and> (case map_of kvs ''exportDate'' of Some (JStr d) \<Rightarrow> True | _ \<Rightarrow> False)
           | _ \<Rightarrow> False)
      | _ \<Rightarrow> False)"

definition as_upload :: "download \<Rightarrow> nat \<Rightarrow> upload" where
  \<comment> \<open>the downloaded backup, of \<open>n\<close> bytes, chosen for an import\<close>
  "as_upload d n = \<lparr>file_name = fileName d, file_size = n, file_text = Some (dataStr d)\<rparr>"

section \<open>States and clocks of the examples\<close>

definition dec5 :: clock where
  "dec5 = \<lparr>getDate = 5, getMonth = 11, toISOString = ''2025-12-05T10:00:00.000Z''\<rparr>"

definition dec6 :: clock where
  "dec6 = \<lparr>getDate = 6, getMonth = 11, toISOString = ''2025-12-06T10:00:00.000Z''\<rparr>"

definition jan1 :: clock where
  "jan1 = \<lparr>getDate = 1, getMonth = 0, toISOString = ''2026-01-01T10:00:00.000Z''\<rparr>"

definition empty_storage :: localStorage where
  \<comment> \<open>the storage of a fresh browser profile\<close>
  "empty_storage = \<lparr>items = Map.empty, available = True\<rparr>"

definition redeemed5_storage :: localStorage where
  \<comment> \<open>the storage after coupon 5 was redeemed on December 5\<close>
  "redeemed5_storage = \<lparr>items = [
       STORAGE_KEY \<mapsto> Json (JArr [JNum 5]),
       REDEEMED_DATES_KEY \<mapsto> Json (JObj [(''5'', JStr ''2025-12-05T10:00:00.000Z'')])],
     available = True\<rparr>"

definition redeemed5_home :: home where
  \<comment> \<open>the page after coupon 5 was redeemed on December 5\<close>
  "redeemed5_home = initial_home\<lparr>redeemedCoupons := [JNum 5],
     redeemedDates := JObj [(''5'', JStr ''2025-12-05T10:00:00.000Z'')]\<rparr>"

definition coupon5 :: coupon where
  "coupon5 = \<lparr>coupon_id = 5, day = 5, title = ''Nocny Spacer pod Gwiazdami'',
      description = ''Romantyczny spacer'',
      validUntil = ''28.02.2026'', emoji = ''U+2728'', category = ROMANTIC, difficulty = Easy\<rparr>"

definition backup1 :: upload where
  \<comment> \<open>a backup made when only coupon 1 was redeemed\<close>
  "backup1 = \<lparr>file_name = ''advent-calendar-backup-2025-12-01.json'', file_size = 96,
     file_text = Some (Json (JObj [(''redeemedCoupons'', JArr [JNum 1]),
        (''exportDate'', JStr ''2025-12-01T10:00:00.000Z''), (''version'', JStr ''1.0.0'')]))\<rparr>"

definition strings_backup :: upload where
  "strings_backup = \<lparr>file_name = ''backup.json'', file_size = 64,
     file_text = Some (Json (JObj [(''redeemedCoupons'', JArr [JStr ''a'', JStr ''b'']),
        (''exportDate'', JStr ''2025-01-01'')]))\<rparr>"

definition fraction_backup :: upload where
  "fraction_backup = \<lparr>file_name = ''backup.json'', file_size = 80,
     file_text = Some (Json (JObj [(''redeemedCoupons'', JArr [JNum (3 / 2)]),
        (''exportDate'', JStr ''2025-01-01''), (''version'', JStr ''1.0.0'')]))\<rparr>"

section \<open>Statistics\<close>

lemma coupons_length: "length coupons = 24"
  by (simp add: coupons_def)

lemma Math_round_percent:
  "Math_round ((of_int r / 24) * 100) = (200 * r + 24) div 48"
proof -
  have "(of_int r / 24) * 100 + 1 / 2 = (of_int (200 * r + 24) :: rat) / of_int 48"
    by simp
  then show ?thesis
    unfolding Math_round_def by (simp only: floor_divide_of_int_eq)
qed

lemma percentage_int:
  "percentage (getCouponStats ids) = Some ((200 * int (length ids) + 24) div 48)"
  using Math_round_percent [of "int (length ids)"]
  by (simp add: getCouponStats_def Let_def coupons_length)

lemma half_redeemed:
  "length ids = 12 \<Longrightarrow> percentage (getCouponStats ids) = Some 50"
  by (simp add: percentage_int)

text \<open>
  Claim C4. For every list of redeemed ids, \<open>getCouponStats\<close> returns
  \<open>redeemed + remaining = total\<close> and \<open>percentage = round (100 * redeemed / total)\<close>,
  a half rounded up. The total is the length of the catalog, 24 for every input, so the
  quotient is never a division by zero and the case \<open>total = 0\<close> does not arise.
\<close>

theorem stats_consistency:
  "total (getCouponStats ids) = 24
   \<and> redeemed (getCouponStats ids) = int (length ids)
   \<and> redeemed (getCouponStats ids) + remaining (getCouponStats ids) = total (getCouponStats ids)
   \<and> percentage (getCouponStats ids)
       = Some (round (100 * (of_int (redeemed (getCouponStats ids)) :: rat)
                        / of_int (total (getCouponStats ids))))"
  by (simp add: getCouponStats_def Let_def coupons_length Math_round_def round_def)

section \<open>Redemption\<close>

lemma Set_has_add: "Set_has (Set_add s (JNum q)) (JNum q)"
  by (auto simp: Set_has_def Set_add_def sameValueZero_def)

lemma Set_add_idem: "Set_add (Set_add s (JNum q)) (JNum q) = Set_add s (JNum q)"
  using Set_has_add [of s q] by (simp add: Set_add_def)

lemma set_Set_add: "set (Set_add s x) = (if Set_has s x then set s else insert x (set s))"
  by (simp add: Set_add_def)

lemma handleRedeem_fst:
  "fst (handleRedeem now i (h, ls)) =
     h\<lparr>redeemedCoupons := Set_add (redeemedCoupons h) (JNum (of_int i)),
       redeemedDates := JObj (AList.update (string_of_int i) (JStr (toISOString now))
                                (spread (redeemedDates h)))\<rparr>"
  by (simp add: handleRedeem_def saveRedeemedDate_def Let_def)

lemma handleRedeem_redeems:
  "isRedeemed (fst (handleRedeem now i w)) i"
  "redeemedAt (fst (handleRedeem now i w)) i = Some (JStr (toISOString now))"
  "selectedCoupon (fst (handleRedeem now i w)) = selectedCoupon (fst w)"
proof -
  obtain h ls where w: "w = (h, ls)" by (cases w)
  show "isRedeemed (fst (handleRedeem now i w)) i"
    unfolding w by (simp add: handleRedeem_fst isRedeemed_def Set_has_add)
  show "redeemedAt (fst (handleRedeem now i w)) i = Some (JStr (toISOString now))"
    unfolding w by (simp add: handleRedeem_fst redeemedAt_def update_conv')
  show "selectedCoupon (fst (handleRedeem now i w)) = selectedCoupon (fst w)"
    unfolding w by (simp add: handleRedeem_fst)
qed

lemma redeem_button_redeemed:
  "selectedCoupon (fst w) = Some i \<Longrightarrow> isRedeemed (fst w) i \<Longrightarrow> redeem_button now w = w"
  by (simp add: redeem_button_def modal_isRedeemed_def onRedeem_def split: option.splits)

lemma redeem_button_acts:
  assumes "selectedCoupon (fst w) = Some i" and "selectedCouponData (fst w) = Some c"
    and "\<not> isRedeemed (fst w) i"
  shows "redeem_button now w = handleRedeem now i w"
proof -
  have "i \<noteq> 0" using assms(1,2) by (auto simp: selectedCouponData_def)
  then show ?thesis
    using assms by (simp add: redeem_button_def modal_isRedeemed_def onRedeem_def)
qed

lemma redeem_button_idem:
  "redeem_button now2 (redeem_button now1 w) = redeem_button now1 w"
proof (cases "selectedCouponData (fst w)")
  case None
  then show ?thesis by (simp add: redeem_button_def)
next
  case (Some c)
  then obtain i where i: "selectedCoupon (fst w) = Some i"
    by (auto simp: selectedCouponData_def split: option.splits)
  show ?thesis
  proof (cases "isRedeemed (fst w) i")
    case True
    then show ?thesis using i by (simp add: redeem_button_redeemed)
  next
    case False
    have act: "redeem_button now1 w = handleRedeem now1 i w"
      using redeem_button_acts [OF i Some False] .
    show ?thesis
      unfolding act
      by (rule redeem_button_redeemed [of _ i])
         (simp_all add: handleRedeem_redeems i)
  qed
qed

text \<open>
  Claim C1. Redeeming goes through the redeem button of the modal, the only caller of
  \<open>handleRedeem\<close>, which is rendered only while the coupon is not redeemed. For the
  coupon \<open>i\<close> that the modal shows, redeeming makes \<open>isRedeemed i\<close> true, and redeeming
  twice in succession leaves the state and the storage of redeeming once: the same
  redeemed set and the same \<open>redeemedAt\<close> of \<open>i\<close>, which is the time of the first
  redemption when the coupon was not redeemed before. The timestamp is not overwritten.
\<close>

theorem redeem_idempotent:
  assumes "selectedCoupon (fst w) = Some i" and "selectedCouponData (fst w) = Some c"
  shows "isRedeemed (fst (redeem_button now1 w)) i
         \<and> isRedeemed (fst (redeem_button now2 (redeem_button now1 w))) i
         \<and> redeem_button now2 (redeem_button now1 w) = redeem_button now1 w
         \<and> redeemedAt (fst (redeem_button now2 (redeem_button now1 w))) i
             = redeemedAt (fst (redeem_button now1 w)) i
         \<and> (\<not> isRedeemed (fst w) i \<longrightarrow>
              redeemedAt (fst (redeem_button now2 (redeem_button now1 w))) i
                = Some (JStr (toISOString now1)))"
proof -
  have once: "isRedeemed (fst (redeem_button now1 w)) i"
  proof (cases "isRedeemed (fst w) i")
    case True
    then show ?thesis using assms(1) by (simp add: redeem_button_redeemed)
  next
    case False
    then show ?thesis
      using redeem_button_acts [OF assms False] by (simp add: handleRedeem_redeems)
  qed
  have first: "\<not> isRedeemed (fst w) i \<Longrightarrow>
      redeemedAt (fst (redeem_button now1 w)) i = Some (JStr (toISOString now1))"
    using redeem_button_acts [OF assms] by (simp add: handleRedeem_redeems)
  show ?thesis
    using once first by (simp add: redeem_button_idem)
qed

text \<open>
  Witness for claim C1: on the fresh page the modal shows coupon 5; the button is
  clicked on December 5 and again on December 6, and the timestamp is the one of
  December 5.
\<close>

theorem redeem_idempotent_witness:
  "isRedeemed (fst (redeem_button dec5 (initial_home\<lparr>selectedCoupon := Some 5\<rparr>, empty_storage))) 5
   \<and> redeemedAt (fst (redeem_button dec6
        (redeem_button dec5 (initial_home\<lparr>selectedCoupon := Some 5\<rparr>, empty_storage)))) 5
       = Some (JStr ''2025-12-05T10:00:00.000Z'')"
proof -
  have f: "find (\<lambda>c. coupon_id c = 5) coupons = Some coupon5"
    by (simp add: coupons_def coupon5_def)
  have a: "selectedCoupon (fst (initial_home\<lparr>selectedCoupon := Some 5\<rparr>, empty_storage)) = Some 5"
    by simp
  have b: "selectedCouponData (fst (initial_home\<lparr>selectedCoupon := Some 5\<rparr>, empty_storage))
             = Some coupon5"
    using f by (simp add: selectedCouponData_def)
  have n: "\<not> isRedeemed (fst (initial_home\<lparr>selectedCoupon := Some 5\<rparr>, empty_storage)) 5"
    by (simp add: isRedeemed_def initial_home_def Set_has_def)
  note r = redeem_idempotent [OF a b, of dec5 dec6]
  have once: "isRedeemed
      (fst (redeem_button dec5 (initial_home\<lparr>selectedCoupon := Some 5\<rparr>, empty_storage))) 5"
    using r by blast
  have twice: "redeemedAt (fst (redeem_button dec6
        (redeem_button dec5 (initial_home\<lparr>selectedCoupon := Some 5\<rparr>, empty_storage)))) 5
      = Some (JStr (toISOString dec5))"
    using r n by blast
  have "toISOString dec5 = ''2025-12-05T10:00:00.000Z''" by (simp add: dec5_def)
  with once twice show ?thesis by simp
qed

section \<open>Hydration\<close>

lemma initializeData_redeemedCoupons:
  "redeemedCoupons (fst (initializeData now n (h, ls)))
     = (case stored_array (getItem ls STORAGE_KEY) of
          None \<Rightarrow> redeemedCoupons h
        | Some xs \<Rightarrow> Set_of xs)"
  by (auto simp: initializeData_def load_redeemed_def load_dates_def stored_array_def truthy_def
      JSON_parse_def split: option.splits content.splits json.splits)

lemma authCheck_keeps:
  "redeemedCoupons (fst (authCheck (h, ls))) = redeemedCoupons h"
  "snd (authCheck (h, ls)) = ls"
  by (simp_all add: authCheck_def)

lemma reload_redeemedCoupons:
  "redeemedCoupons (fst (reload now n ls))
     = (case stored_array (getItem ls STORAGE_KEY) of None \<Rightarrow> [] | Some xs \<Rightarrow> Set_of xs)"
proof -
  obtain h' ls' where a: "authCheck (initial_home, ls) = (h', ls')"
    by (cases "authCheck (initial_home, ls)")
  have "ls' = ls" using authCheck_keeps(2) [of initial_home ls] a by simp
  moreover have "redeemedCoupons h' = []"
    using authCheck_keeps(1) [of initial_home ls] a by (simp add: initial_home_def)
  ultimately show ?thesis
    unfolding reload_def a by (simp add: initializeData_redeemedCoupons split: option.splits)
qed

lemma hydrate_corrupted:
  "getItem ls STORAGE_KEY = Some (Raw s) \<Longrightarrow> redeemedCoupons (fst (reload now n ls)) = []"
  by (simp add: reload_redeemedCoupons stored_array_def)

lemma hydrate_missing:
  "getItem ls STORAGE_KEY = None \<Longrightarrow> redeemedCoupons (fst (reload now n ls)) = []"
  by (simp add: reload_redeemedCoupons stored_array_def)

text \<open>
  Claim C9, as stated, fails for a stored array of values that are not numbers:
  \<open>initializeData\<close> tests \<^verbatim>\<open>Array.isArray\<close> only, and the array \<^verbatim>\<open>["a","b"]\<close> becomes
  the redeemed set.
\<close>

theorem hydrate_strings:
  "redeemedCoupons (fst (reload dec5 []
      \<lparr>items = [STORAGE_KEY \<mapsto> Json (JArr [JStr ''a'', JStr ''b''])], available = True\<rparr>))
     = [JStr ''a'', JStr ''b'']"
  by (simp add: reload_def authCheck_def initializeData_def load_redeemed_def load_dates_def
      getItem_def truthy_def JSON_parse_def Set_of_def Set_add_def Set_has_def sameValueZero_def
      STORAGE_KEY_def REDEEMED_DATES_KEY_def AUTH_KEY_def FIRST_VISIT_KEY_def
      mark_first_visit_def initial_home_def)

text \<open>
  Claim C9, amended. Loading the page always ends with a state (\<open>reload\<close> is a total
  function: a \<^verbatim>\<open>JSON.parse\<close> that throws is caught). The redeemed set is empty when
  the stored value is missing, is not valid JSON or is not an array; a stored array is
  loaded as the set of its elements, whatever they are.
\<close>

theorem hydrate_redeemed:
  "redeemedCoupons (fst (reload now n ls))
     = (case stored_array (getItem ls STORAGE_KEY) of None \<Rightarrow> [] | Some xs \<Rightarrow> Set_of xs)"
  by (rule reload_redeemedCoupons)

section \<open>Reset\<close>

lemma reset_clears_redeemed:
  assumes "available ls"
  shows "resetData True ls = (True, ls\<lparr>items := (items ls)(STORAGE_KEY := None)\<rparr>)"
    and "redeemedCoupons (fst (reload now n (snd (resetData True ls)))) = []"
    and "\<not> isRedeemed (fst (reload now n (snd (resetData True ls)))) i"
    and "redeemed (getCouponStats (redeemedCoupons (fst (reload now n (snd (resetData True ls))))))
           = 0"
proof -
  show r: "resetData True ls = (True, ls\<lparr>items := (items ls)(STORAGE_KEY := None)\<rparr>)"
    using assms by (simp add: resetData_def removeItem_def)
  show e: "redeemedCoupons (fst (reload now n (snd (resetData True ls)))) = []"
    using assms by (simp add: r hydrate_missing getItem_def)
  show "\<not> isRedeemed (fst (reload now n (snd (resetData True ls)))) i"
    by (simp add: isRedeemed_def e Set_has_def)
  show "redeemed (getCouponStats (redeemedCoupons (fst (reload now n (snd (resetData True ls))))))
          = 0"
    by (simp add: e getCouponStats_def Let_def)
qed

text \<open>
  Claim C2 holds for the redeemed set (\<open>reset_clears_redeemed\<close>) and fails for the
  timestamps: \<open>resetData\<close> removes the key \<^verbatim>\<open>redeemedCoupons\<close> only. After coupon 5
  was redeemed, a confirmed reset leaves \<^verbatim>\<open>redeemedDates\<close> in the storage, and the
  reloaded page holds the timestamp of coupon 5 again.
\<close>

theorem reset_keeps_redeemedDates:
  "resetData True redeemed5_storage
     = (True, \<lparr>items = [REDEEMED_DATES_KEY \<mapsto>
                   Json (JObj [(''5'', JStr ''2025-12-05T10:00:00.000Z'')])],
               available = True\<rparr>)
   \<and> redeemedDates (fst (reload dec6 [] (snd (resetData True redeemed5_storage))))
       = JObj [(''5'', JStr ''2025-12-05T10:00:00.000Z'')]"
  by (auto simp add: resetData_def removeItem_def redeemed5_storage_def reload_def authCheck_def
      initializeData_def load_redeemed_def load_dates_def getItem_def truthy_def JSON_parse_def
      STORAGE_KEY_def REDEEMED_DATES_KEY_def AUTH_KEY_def FIRST_VISIT_KEY_def
      mark_first_visit_def initial_home_def)

section \<open>The invariant of the ledger\<close>

lemma sameValueZero_num: "sameValueZero y (JNum q) \<Longrightarrow> y = JNum q"
  by (cases y) (simp_all add: sameValueZero_def)

lemma in_Set_add: "JNum q \<in> set (Set_add s (JNum q))"
  using sameValueZero_num by (auto simp: Set_add_def Set_has_def)

lemma Set_add_mono: "x \<in> set s \<Longrightarrow> x \<in> set (Set_add s y)"
  by (simp add: Set_add_def)

lemma key_of_int: "key_of (JNum (of_int i)) = Some (string_of_int i)"
  by (simp add: key_of_def)

lemma ledger_inv_initial: "ledger_inv initial_home"
  by (simp add: ledger_inv_def initial_home_def)

text \<open>
  Claim C3, as stated, fails for import: it replaces the stored redeemed array and leaves
  the stored \<^verbatim>\<open>redeemedDates\<close> as they are, and loading the page reads both as stored.
  With coupon 5 redeemed, importing a backup that holds coupon 1 only gives a page whose
  \<open>redeemedDates\<close> still has the key 5, which is not in the redeemed set.
\<close>

theorem import_breaks_inv:
  "ledger_inv (fst (reload dec6 [] redeemed5_storage))
   \<and> fst (importData (Some backup1) redeemed5_storage) = Imported False
   \<and> \<not> ledger_inv (fst (reload dec6 [] (snd (importData (Some backup1) redeemed5_storage))))"
  by (simp add: ledger_inv_def key_of_def importData_def handleFileSelect_def onload_def
      validateBackupData_def falsy_def typeof_def get_prop_def endsWith_def backup1_def
      setItem_def JSON_stringify_def BACKUP_VERSION_def redeemed5_storage_def reload_def
      authCheck_def initializeData_def load_redeemed_def load_dates_def getItem_def truthy_def
      JSON_parse_def Set_of_def Set_add_def Set_has_def sameValueZero_def STORAGE_KEY_def
      REDEEMED_DATES_KEY_def AUTH_KEY_def FIRST_VISIT_KEY_def mark_first_visit_def
      initial_home_def string_of_int_def string_of_nat.simps)

text \<open>
  Claim C3, amended. Redeeming preserves the invariant: when every key of \<open>redeemedDates\<close>
  belongs to an element of the redeemed set before \<open>handleRedeem\<close>, it does so after.
\<close>

theorem redeem_preserves_inv:
  assumes "ledger_inv (fst w)"
  shows "ledger_inv (fst (handleRedeem now i w))"
proof -
  obtain h ls where w: "w = (h, ls)" by (cases w)
  have inv: "\<forall>k \<in> fst ` set (spread (redeemedDates h)).
               \<exists>x \<in> set (redeemedCoupons h). key_of x = Some k"
    using assms by (simp add: w ledger_inv_def)
  show ?thesis
    unfolding w handleRedeem_fst ledger_inv_def
  proof (simp add: dom_update, intro conjI ballI)
    show "\<exists>x \<in> set (Set_add (redeemedCoupons h) (JNum (of_int i))).
            key_of x = Some (string_of_int i)"
      using in_Set_add key_of_int by blast
  next
    fix k assume "k \<in> set (spread (redeemedDates h))"
    then have "fst k \<in> fst ` set (spread (redeemedDates h))" by simp
    with inv obtain x where "x \<in> set (redeemedCoupons h)" "key_of x = Some (fst k)" by blast
    then show "\<exists>x \<in> set (Set_add (redeemedCoupons h) (JNum (of_int i))).
                 key_of x = Some (fst k)"
      using Set_add_mono by blast
  qed
qed

text \<open>
  Witness for claim C3: from the fresh page, coupon 5 redeemed on December 5 and coupon 7
  on December 6.
\<close>

theorem redeem_preserves_inv_witness:
  "ledger_inv (fst (initial_home, empty_storage))
   \<and> ledger_inv (fst (handleRedeem dec5 5 (initial_home, empty_storage)))
   \<and> ledger_inv (fst (handleRedeem dec6 7 (handleRedeem dec5 5 (initial_home, empty_storage))))"
proof -
  have a: "ledger_inv (fst (initial_home, empty_storage))"
    by (simp add: ledger_inv_def initial_home_def)
  have b: "ledger_inv (fst (handleRedeem dec5 5 (initial_home, empty_storage)))"
    using redeem_preserves_inv [OF a] .
  have c: "ledger_inv (fst (handleRedeem dec6 7 (handleRedeem dec5 5 (initial_home, empty_storage))))"
    using redeem_preserves_inv [OF b] .
  from a b c show ?thesis by simp
qed

section \<open>Import and export\<close>

lemma typeof_number: "(typeof (Some v) = ''number'') = is_number v"
  by (cases v) (simp_all add: typeof_def is_number_def)

lemma typeof_string: "(typeof v = ''string'') = (\<exists>d. v = Some (JStr d))"
  by (cases v; cases "the v") (simp_all add: typeof_def)

lemma typeof_object: "typeof (Some (JObj kvs)) = ''object''"
  by (simp add: typeof_def)

lemma validate_backup_shape: "validateBackupData data = backup_shape data"
proof (cases data)
  case (JObj kvs)
  then show ?thesis
    by (auto simp: validateBackupData_def backup_shape_def falsy_def get_prop_def typeof_number
        typeof_string typeof_object split: option.splits json.splits)
qed (simp_all add: validateBackupData_def backup_shape_def falsy_def typeof_def get_prop_def)

lemma import_atomic:
  "(\<forall>warn. fst (importData f ls) \<noteq> Imported warn) \<Longrightarrow> snd (importData f ls) = ls"
  by (auto simp: importData_def handleFileSelect_def onload_def setItem_def Let_def
      split: option.splits if_splits)

text \<open>
  Claim C5, as stated, fails for a number that is not an integer: \<open>validateBackupData\<close>
  tests \<^verbatim>\<open>typeof id === 'number'\<close>, which \<^verbatim>\<open>1.5\<close> passes. The backup with
  \<^verbatim>\<open>"redeemedCoupons": [1.5]\<close> is imported and replaces the stored array.
\<close>

theorem import_accepts_fraction:
  "of_int \<lfloor>3 / 2 :: rat\<rfloor> \<noteq> (3 / 2 :: rat)
   \<and> fst (importData (Some fraction_backup) redeemed5_storage) = Imported False
   \<and> items (snd (importData (Some fraction_backup) redeemed5_storage)) STORAGE_KEY
       = Some (Json (JArr [JNum (3 / 2)]))"
proof -
  have "\<lfloor>3 / 2 :: rat\<rfloor> = 1" by (rule floor_unique) simp_all
  then have "of_int \<lfloor>3 / 2 :: rat\<rfloor> \<noteq> (3 / 2 :: rat)" by simp
  then show ?thesis
    by (simp add: importData_def handleFileSelect_def onload_def validateBackupData_def
      falsy_def typeof_def get_prop_def endsWith_def fraction_backup_def setItem_def
      JSON_stringify_def BACKUP_VERSION_def redeemed5_storage_def truthy_def JSON_parse_def
      STORAGE_KEY_def REDEEMED_DATES_KEY_def)
qed

text \<open>
  Claim C5, amended. The validation accepts exactly an object whose \<^verbatim>\<open>redeemedCoupons\<close>
  is an array of numbers (integers or not) and whose \<^verbatim>\<open>exportDate\<close> is a string. A
  file whose JSON fails it, with a name in \<^verbatim>\<open>.json\<close> and at most 1 MB, is rejected as
  an invalid format and the storage stays as it was.
\<close>

theorem import_rejects_invalid:
  assumes "\<not> backup_shape data" and "file_text f = Some (Json data)"
    and "available ls" and "endsWith (file_name f) ''.json''" and "file_size f \<le> 1024 * 1024"
  shows "validateBackupData data = backup_shape data
         \<and> importData (Some f) ls = (Invalid_format, ls)"
  using assms
  by (simp add: validate_backup_shape importData_def handleFileSelect_def onload_def truthy_def
      JSON_parse_def)

text \<open>
  Witness for claim C5: the backup with \<^verbatim>\<open>"redeemedCoupons": ["a","b"]\<close>, imported
  when coupon 5 is redeemed.
\<close>

theorem import_rejects_invalid_witness:
  "importData (Some strings_backup) redeemed5_storage = (Invalid_format, redeemed5_storage)"
  using import_rejects_invalid [of "JObj [(''redeemedCoupons'', JArr [JStr ''a'', JStr ''b'']),
        (''exportDate'', JStr ''2025-01-01'')]" strings_backup redeemed5_storage]
  by (simp add: backup_shape_def is_number_def strings_backup_def redeemed5_storage_def
      endsWith_def)

lemma endsWith_append: "endsWith (s @ suf) suf"
  by (simp add: endsWith_def)

text \<open>
  Claim C6, as stated, fails for the ledger of a fresh profile: nothing is stored under
  \<^verbatim>\<open>redeemedCoupons\<close>, and \<open>exportData\<close> shows an error and produces no document.
\<close>

theorem export_nothing:
  "exportData dec5 empty_storage = Inl No_data"
  by (simp add: exportData_def empty_storage_def getItem_def)

text \<open>
  Claim C6, amended. When the storage is available and holds an array of numbers under
  \<^verbatim>\<open>redeemedCoupons\<close>, the export produces a document, and importing that document
  (at most 1 MB) succeeds without a version warning and leaves the storage, hence the
  redeemed set, as it was.
\<close>

theorem export_import_roundtrip:
  assumes "available ls" and "items ls STORAGE_KEY = Some (Json (JArr ids))"
    and "list_all is_number ids" and "n \<le> 1024 * 1024"
  shows "case exportData now ls of
           Inl e \<Rightarrow> False
         | Inr d \<Rightarrow> importData (Some (as_upload d n)) ls = (Imported False, ls)"
proof -
  have ex: "exportData now ls =
      Inr \<lparr>fileName = ''advent-calendar-backup-''
                       @ takeWhile (\<lambda>c. c \<noteq> CHR ''T'') (toISOString now) @ ''.json'',
           dataStr = Json (JObj [(''redeemedCoupons'', JArr ids),
                                 (''exportDate'', JStr (toISOString now)),
                                 (''version'', JStr BACKUP_VERSION)])\<rparr>"
    using assms(1,2)
    by (simp add: exportData_def getItem_def truthy_def JSON_parse_def JSON_stringify_def)
  have name: "endsWith (''advent-calendar-backup-''
                @ takeWhile (\<lambda>c. c \<noteq> CHR ''T'') (toISOString now) @ ''.json'') ''.json''"
    using endsWith_append [of "''advent-calendar-backup-''
                @ takeWhile (\<lambda>c. c \<noteq> CHR ''T'') (toISOString now)" "''.json''"]
    by simp
  have shape: "backup_shape (JObj [(''redeemedCoupons'', JArr ids),
                                   (''exportDate'', JStr (toISOString now)),
                                   (''version'', JStr BACKUP_VERSION)])"
    using assms(3) by (simp add: backup_shape_def)
  have same: "ls\<lparr>items := (items ls)(STORAGE_KEY \<mapsto> Json (JArr ids))\<rparr> = ls"
    using assms(2) by (simp add: map_upd_triv)
  show ?thesis
    unfolding ex
    using assms(1,4) name shape same
    by (simp add: importData_def handleFileSelect_def as_upload_def onload_def truthy_def
        JSON_parse_def validate_backup_shape get_prop_def setItem_def JSON_stringify_def
        del: append.simps)
qed

text \<open>
  Witness for claim C6: with coupon 5 redeemed, the export of December 6 and the import of
  the exported file.
\<close>

theorem export_import_roundtrip_witness:
  "exportData dec6 redeemed5_storage
     = Inr \<lparr>fileName = ''advent-calendar-backup-2025-12-06.json'',
            dataStr = Json (JObj [(''redeemedCoupons'', JArr [JNum 5]),
                                  (''exportDate'', JStr ''2025-12-06T10:00:00.000Z''),
                                  (''version'', JStr ''1.0.0'')])\<rparr>
   \<and> importData (Some \<lparr>file_name = ''advent-calendar-backup-2025-12-06.json'', file_size = 96,
          file_text = Some (Json (JObj [(''redeemedCoupons'', JArr [JNum 5]),
                                  (''exportDate'', JStr ''2025-12-06T10:00:00.000Z''),
                                  (''version'', JStr ''1.0.0'')]))\<rparr>) redeemed5_storage
       = (Imported False, redeemed5_storage)"
proof -
  have ex: "exportData dec6 redeemed5_storage
     = Inr \<lparr>fileName = ''advent-calendar-backup-2025-12-06.json'',
            dataStr = Json (JObj [(''redeemedCoupons'', JArr [JNum 5]),
                                  (''exportDate'', JStr ''2025-12-06T10:00:00.000Z''),
                                  (''version'', JStr ''1.0.0'')])\<rparr>"
    by (simp add: exportData_def getItem_def truthy_def JSON_parse_def JSON_stringify_def
        redeemed5_storage_def dec6_def BACKUP_VERSION_def STORAGE_KEY_def REDEEMED_DATES_KEY_def)
  have "available redeemed5_storage"
    "items redeemed5_storage STORAGE_KEY = Some (Json (JArr [JNum 5]))"
    "list_all is_number [JNum 5]" "(96::nat) \<le> 1024 * 1024"
    by (simp_all add: redeemed5_storage_def is_number_def STORAGE_KEY_def REDEEMED_DATES_KEY_def)
  from export_import_roundtrip [OF this, of dec6] ex show ?thesis
    by (simp add: as_upload_def)
qed

section \<open>The door of a redeemed coupon\<close>

text \<open>
  Claim C7, as stated, fails: \<open>statusText\<close> tests the lock first. On January 1 the door
  of the redeemed coupon 5 has the locked status text, the lock overlay and is disabled.
\<close>

theorem redeemed_door_locked:
  "isRedeemed redeemed5_home (coupon_id coupon5)
   \<and> \<not> isUnlocked jan1 (day coupon5)
   \<and> ariaStatus (render_door jan1 redeemed5_home coupon5) = Locked 5
   \<and> lockOverlay (render_door jan1 redeemed5_home coupon5)
   \<and> ariaDisabled (render_door jan1 redeemed5_home coupon5)"
  by (simp add: render_door_def Door_def statusText_def isUnlocked_def isRedeemed_def
      redeemed5_home_def coupon5_def jan1_def Set_has_def sameValueZero_def initial_home_def)

text \<open>
  Claim C7, amended. The door of a redeemed coupon shows the redeemed badge and overlay
  whatever the clock says, and never the status of an unlocked, unredeemed door. Its
  status is \<open>Redeemed\<close> while the clock unlocks its day; when the clock does not, the
  door has the locked status and the lock overlay.
\<close>

theorem redeemed_door:
  assumes "isRedeemed h (coupon_id c)"
  shows "redeemedBadge (render_door today h c)
         \<and> redeemedOverlay (render_door today h c)
         \<and> ariaStatus (render_door today h c)
             = (if isUnlocked today (day c) then Redeemed else Locked (day c))
         \<and> ariaStatus (render_door today h c) \<noteq> Unlocked
         \<and> lockOverlay (render_door today h c) = (\<not> isUnlocked today (day c))
         \<and> ariaDisabled (render_door today h c) = (\<not> isUnlocked today (day c))"
  using assms by (simp add: render_door_def Door_def statusText_def)

text \<open>Witness for claim C7: the door of the redeemed coupon 5 on December 6 and on January 1.\<close>

theorem redeemed_door_witness:
  "isRedeemed redeemed5_home (coupon_id coupon5)
   \<and> ariaStatus (render_door dec6 redeemed5_home coupon5) = Redeemed
   \<and> redeemedBadge (render_door jan1 redeemed5_home coupon5)"
proof -
  have r: "isRedeemed redeemed5_home (coupon_id coupon5)"
    by (simp add: isRedeemed_def redeemed5_home_def coupon5_def Set_has_def sameValueZero_def)
  from redeemed_door [OF r, of dec6] redeemed_door [OF r, of jan1] r show ?thesis
    by (simp add: isUnlocked_def dec6_def coupon5_def)
qed

section \<open>The session gate\<close>

lemma padStart_day: "(padStart 2 ''0'' s = ''03'') = (s = ''03'' \<or> s = ''3'')"
  by (cases s; cases "tl s") (auto simp: padStart_def numeral_2_eq_2)

lemma padStart_month: "(padStart 2 ''0'' s = ''02'') = (s = ''02'' \<or> s = ''2'')"
  by (cases s; cases "tl s") (auto simp: padStart_def numeral_2_eq_2)

lemma padStart_year: "(padStart 2 ''23'' s = ''23'') = (s = ''23'' \<or> s = ''3'' \<or> s = [])"
  by (cases s; cases "tl s") (auto simp: padStart_def numeral_2_eq_2)

lemma padStart_nonempty: "padStart 2 (p # ps) s \<noteq> []"
  by (cases s) (auto simp: padStart_def numeral_2_eq_2)

lemma handleSubmit_true:
  "(handleSubmit d m y = Authenticate_true)
     = (trim d \<in> {''03'', ''3''} \<and> trim m \<in> {''02'', ''2''} \<and> trim y \<in> {''23'', ''3'', []})"
  using padStart_day [of "trim d"] padStart_month [of "trim m"] padStart_year [of "trim y"]
     padStart_nonempty [of "CHR ''0''" "[]"] padStart_nonempty [of "CHR ''2''" "''3''"]
  by (auto simp: handleSubmit_def Let_def)

lemma authenticate_result:
  "authenticate d m y w =
     (if trim d \<in> {''03'', ''3''} \<and> trim m \<in> {''02'', ''2''} \<and> trim y \<in> {''23'', ''3'', []}
      then (True, handleAuthenticate True w) else (False, w))"
  using handleSubmit_true [of d m y]
  by (cases "handleSubmit d m y") (simp_all add: authenticate_def)

text \<open>
  Claim C8 against the code: the day and the month are padded with zeros, the year with
  the text \<^verbatim>\<open>23\<close>, so an empty year becomes \<^verbatim>\<open>23\<close> where the padding with zeros gives
  \<^verbatim>\<open>00\<close>. The inputs 3, 2 and an empty year authenticate and store the flag.
\<close>

theorem empty_year_authenticates:
  "authenticate ''3'' ''2'' [] (initial_home, empty_storage)
     = (True, initial_home\<lparr>isAuthenticated := True, showAuthModal := False\<rparr>,
        \<lparr>items = [AUTH_KEY \<mapsto> Json (JBool True)], available = True\<rparr>)
   \<and> padStart 2 ''0'' (trim []) = ''00''"
  by (simp add: authenticate_def handleSubmit_def handleAuthenticate_def padStart_def trim_def
      isWhiteSpace_def setItem_def empty_storage_def Let_def numeral_2_eq_2)

section \<open>The payload of the scannable code\<close>






end
